theory Spec2Isabelle
  imports Main "HOL-Library.Word"
begin

section \<open>The DNS library types the plugin builds (github.com/miekg/dns)\<close>

text \<open>
  \<open>net.IP\<close> is a byte slice; \<open>nil\<close> is the empty list. Record types, the class and the
  response codes are the library's numeric constants.
\<close>

type_synonym IP = "8 word list"

definition TypeA :: "16 word" where "TypeA = 1"
definition TypeNS :: "16 word" where "TypeNS = 2"
definition TypeCNAME :: "16 word" where "TypeCNAME = 5"
definition TypeSOA :: "16 word" where "TypeSOA = 6"
definition TypePTR :: "16 word" where "TypePTR = 12"
definition TypeMX :: "16 word" where "TypeMX = 15"
definition TypeTXT :: "16 word" where "TypeTXT = 16"
definition TypeAAAA :: "16 word" where "TypeAAAA = 28"

definition ClassINET :: "16 word" where "ClassINET = 1"

definition RcodeSuccess :: int where "RcodeSuccess = 0"
definition RcodeServerFailure :: int where "RcodeServerFailure = 2"
definition RcodeNameError :: int where "RcodeNameError = 3"

record RR_Header =
  Name :: string
  Rrtype :: "16 word"
  Class :: "16 word"
  Ttl :: "32 word"

text \<open>
  \<open>dns.RR\<close> is an interface; the plugin builds these nine implementations of it. Every one
  starts with its header.
\<close>

datatype RR =
    RR_A (Hdr: RR_Header) (A: IP)
  | RR_AAAA (Hdr: RR_Header) (AAAA: IP)
  | RR_CNAME (Hdr: RR_Header) (Target: string)
  | RR_PTR (Hdr: RR_Header) (Ptr: string)
  | RR_NS (Hdr: RR_Header) (Ns: string)
  | RR_MX (Hdr: RR_Header) (Preference: "16 word") (Mx: string)
  | RR_TXT (Hdr: RR_Header) (Txt: "string list")
  | RR_SOA (Hdr: RR_Header) (Ns: string) (Mbox: string) (Serial: "32 word")
      (Refresh: "32 word") (Retry: "32 word") (Expire: "32 word") (Minttl: "32 word")
  | RR_NULL (Hdr: RR_Header) (Data: string)

text \<open>\<open>&dns.NULL{}\<close>: every field has Go's zero value.\<close>

definition NULL_RR :: RR where
  "NULL_RR = RR_NULL \<lparr>Name = [], Rrtype = 0, Class = 0, Ttl = 0\<rparr> []"

section \<open>The Go standard library calls of the record conversion\<close>

text \<open>
  \<open>strings.Split(s, " ")\<close>: cuts at every space; \<open>n\<close> spaces give \<open>n + 1\<close> tokens, the
  empty string gives one empty token.
\<close>

fun Split_space :: "string \<Rightarrow> string list" where
  "Split_space [] = [[]]"
| "Split_space (c # cs) =
     (if c = CHR '' '' then [] # Split_space cs
      else (case Split_space cs of
              [] \<Rightarrow> [[c]]
            | t # ts \<Rightarrow> (c # t) # ts))"

definition is_digit :: "char \<Rightarrow> bool" where
  "is_digit c = (48 \<le> (of_char c :: nat) \<and> (of_char c :: nat) \<le> 57)"

definition digit_val :: "char \<Rightarrow> int" where
  "digit_val c = of_char c - 48"

definition decimal :: "string \<Rightarrow> int" where
  "decimal ds = foldl (\<lambda>acc c. 10 * acc + digit_val c) 0 ds"

text \<open>
  \<open>strconv.ParseInt(s, 10, 32)\<close>: an optional sign, then one or more decimal digits (base 10
  is given, so no underscores and no prefix); the value must fit a signed 32-bit integer.
  \<open>None\<close> is a non-nil \<open>err\<close> (syntax or range).
\<close>

definition ParseInt_10_32 :: "string \<Rightarrow> int option" where
  "ParseInt_10_32 s =
     (case s of
        [] \<Rightarrow> None
      | c # cs \<Rightarrow>
          (let neg = (c = CHR ''-'');
               ds = (if c = CHR ''+'' \<or> c = CHR ''-'' then cs else s)
           in if ds = [] \<or> \<not> list_all is_digit ds then None
              else (let un = decimal ds
                    in if \<not> neg \<and> un \<ge> 2 ^ 31 then None
                       else if neg \<and> un > 2 ^ 31 then None
                       else Some (if neg then - un else un))))"

section \<open>Record model (querydns.go)\<close>

text \<open>
  \<open>DNSRecordType\<close> is a string. A map read of a missing key yields the zero value, written
  out in \<open>DNSRecordReverseMap_get\<close>.
\<close>

definition DNSRecordReverseMap :: "string \<rightharpoonup> 16 word" where
  "DNSRecordReverseMap = map_of
     [(''A'', TypeA), (''AAAA'', TypeAAAA), (''PTR'', TypePTR), (''CNAME'', TypeCNAME),
      (''NS'', TypeNS), (''SOA'', TypeSOA), (''MX'', TypeMX), (''TXT'', TypeTXT)]"

definition DNSRecordReverseMap_get :: "string \<Rightarrow> 16 word" where
  "DNSRecordReverseMap_get t = (case DNSRecordReverseMap t of None \<Rightarrow> 0 | Some v \<Rightarrow> v)"

record DNSRecord =
  rType :: string
  rTTL :: "32 word"
  rValue :: string
  rAbsoluteValue :: string
  rFQDN :: string

text \<open>
  \<open>(r *DNSRecord) RR()\<close>. \<open>net.ParseIP\<close> is the standard library's; the conversion takes it
  as \<open>ParseIP\<close> (it returns \<open>nil\<close>, here \<open>[]\<close>, for a string that is no IP literal).
  \<open>uint16(preference)\<close> keeps the low 16 bits.
\<close>

definition DNSRecord_RR :: "(string \<Rightarrow> IP) \<Rightarrow> DNSRecord \<Rightarrow> RR" where
  "DNSRecord_RR ParseIP r =
     (let header = \<lparr>Name = rFQDN r, Rrtype = DNSRecordReverseMap_get (rType r),
                     Class = ClassINET, Ttl = rTTL r\<rparr>
      in if rType r = ''A'' then RR_A header (ParseIP (rAbsoluteValue r))
         else if rType r = ''AAAA'' then RR_AAAA header (ParseIP (rAbsoluteValue r))
         else if rType r = ''CNAME'' then RR_CNAME header (rAbsoluteValue r)
         else if rType r = ''PTR'' then RR_PTR header (rAbsoluteValue r)
         else if rType r = ''NS'' then RR_NS header (rAbsoluteValue r)
         else if rType r = ''MX'' then
           (case Split_space (rAbsoluteValue r) of
              [pref, host] \<Rightarrow>
                (case ParseInt_10_32 pref of
                   None \<Rightarrow> NULL_RR
                 | Some preference \<Rightarrow> RR_MX header (word_of_int preference) host)
            | _ \<Rightarrow> NULL_RR)
         else if rType r = ''TXT'' then RR_TXT header [rAbsoluteValue r]
         else NULL_RR)"

record DNSZone =
  zName :: string
  zMName_Name :: string
  zRName :: string
  zSerial :: "32 word"
  zRefresh :: "32 word"
  zRetry :: "32 word"
  zExpire :: "32 word"
  zMinimum :: "32 word"
  zTTL :: "32 word"

text \<open>\<open>(z *DNSZone) RR()\<close>.\<close>

definition DNSZone_RR :: "DNSZone \<Rightarrow> RR" where
  "DNSZone_RR z =
     RR_SOA \<lparr>Name = zName z @ ''.'', Rrtype = TypeSOA, Class = ClassINET, Ttl = zTTL z\<rparr>
       (zMName_Name z @ ''.'') (zRName z @ ''.'')
       (zSerial z) (zRefresh z) (zRetry z) (zExpire z) (zMinimum z)"

section \<open>Backend queries (querydns.go)\<close>

text \<open>
  The Go \<open>error\<close> values the plugin builds, by their format string: \<open>RequestProblem\<close> is
  "problem performing request: %w", \<open>BadResponseCode\<close> is "bad HTTP response code: %d",
  \<open>Unmarshal\<close> is "could not unmarshal response: %w", \<open>NotImplemented\<close> is "request type
  not implemented"; \<open>LegacyError\<close> is an error of the legacy lookups.
\<close>

datatype error =
    RequestProblem string
  | BadResponseCode int
  | Unmarshal string
  | NotImplemented
  | LegacyError string

text \<open>What \<open>get(n.Client, requrl, n.Token)\<close> returns: an error, or a response.\<close>

datatype http_reply =
    GetError string
  | Response (StatusCode: int) (Body: string)

definition StatusOK :: int where "StatusOK = 200"

text \<open>
  The plugin's settings. \<open>TTL\<close> is a \<open>time.Duration\<close>, a count of nanoseconds; \<open>Fall\<close> is
  the zone list of \<open>fall.F\<close>. The next handler and the HTTP client are collaborators.
\<close>

record Netbox =
  Url :: string
  Token :: string
  TTL :: int
  Fall :: "string list"
  Zones :: "string list"
  UsePlugin :: bool

text \<open>
  The collaborators of the engine, as parameters. The state \<open>'w\<close> is everything outside the
  process that a lookup can read or change (the backend, the network), threaded through
  every call in program order.
  \<^item> \<open>net_ParseIP\<close>: \<open>net.ParseIP\<close>;
  \<^item> \<open>Zones_Matches\<close>: \<open>plugin.Zones(zs).Matches(name)\<close>, the matched zone or the empty string;
  \<^item> \<open>Fall_Through\<close>: \<open>fall.F.Through(name)\<close>;
  \<^item> \<open>http_get\<close>: \<open>get(client, url, token)\<close>;
  \<^item> \<open>json_records\<close>, \<open>json_zones\<close>: \<open>json.Decoder.Decode\<close> into a \<open>DNSRecordsList\<close>
    or a \<open>DNSZoneList\<close>: what the list holds afterwards, and the decoder's error if any;
  \<^item> \<open>query\<close>, \<open>queryreverse\<close>: the legacy lookups by host name and by address.
\<close>

record 'w env =
  net_ParseIP :: "string \<Rightarrow> IP"
  Zones_Matches :: "string list \<Rightarrow> string \<Rightarrow> string"
  Fall_Through :: "string list \<Rightarrow> string \<Rightarrow> bool"
  http_get :: "string \<Rightarrow> string \<Rightarrow> 'w \<Rightarrow> http_reply \<times> 'w"
  json_records :: "string \<Rightarrow> DNSRecord list \<times> string option"
  json_zones :: "string \<Rightarrow> DNSZone list \<times> string option"
  query :: "Netbox \<Rightarrow> string \<Rightarrow> int \<Rightarrow> 'w \<Rightarrow> (IP list \<times> error option) \<times> 'w"
  queryreverse :: "Netbox \<Rightarrow> string \<Rightarrow> 'w \<Rightarrow> (string list \<times> error option) \<times> 'w"

text \<open>\<open>strings.TrimRight(s, ".")\<close> drops every trailing dot, \<open>strings.TrimSuffix(s, ".")\<close> one.\<close>

definition TrimRight_dot :: "string \<Rightarrow> string" where
  "TrimRight_dot s = rev (dropWhile (\<lambda>c. c = CHR ''.'') (rev s))"

definition TrimSuffix_dot :: "string \<Rightarrow> string" where
  "TrimSuffix_dot s = (if s \<noteq> [] \<and> last s = CHR ''.'' then butlast s else s)"

definition DNSQueryReverseMap :: "16 word \<rightharpoonup> string" where
  "DNSQueryReverseMap = map_of
     [(TypeA, ''type=A&type=CNAME''), (TypeAAAA, ''type=AAAA&type=CNAME''),
      (TypePTR, ''type=PTR''), (TypeCNAME, ''type=CNAME''), (TypeNS, ''type=NS''),
      (TypeMX, ''type=MX''), (TypeTXT, ''type=TXT'')]"

definition DNSQueryReverseMap_get :: "16 word \<Rightarrow> string" where
  "DNSQueryReverseMap_get t = (case DNSQueryReverseMap t of None \<Rightarrow> [] | Some v \<Rightarrow> v)"

text \<open>
  The request URLs, the \<open>fmt.Sprintf\<close> of \<open>queryRecord\<close> and of \<open>queryZone\<close>.
  Both functions return a pair in Go, the list and the error; the list is \<open>nil\<close> until
  the decoder has run.
\<close>

definition record_requrl :: "Netbox \<Rightarrow> string \<Rightarrow> string \<Rightarrow> string \<Rightarrow> string" where
  "record_requrl n zone fqdn querySet =
     Url n @ ''/api/plugins/netbox-dns/records/?zone='' @ TrimRight_dot zone
     @ ''&fqdn='' @ fqdn @ ''&active=true&'' @ querySet"

definition zone_requrl :: "Netbox \<Rightarrow> string \<Rightarrow> string" where
  "zone_requrl n zone =
     Url n @ ''/api/plugins/netbox-dns/zones/?name='' @ TrimSuffix_dot zone @ ''&active=true''"

definition queryRecord ::
  "'w env \<Rightarrow> Netbox \<Rightarrow> string \<Rightarrow> string \<Rightarrow> string \<Rightarrow> 'w
   \<Rightarrow> (DNSRecord list \<times> error option) \<times> 'w" where
  "queryRecord E n zone fqdn querySet w =
     (let requrl = record_requrl n zone fqdn querySet
      in case http_get E requrl (Token n) w of
           (GetError e, w') \<Rightarrow> (([], Some (RequestProblem e)), w')
         | (Response code body, w') \<Rightarrow>
             if code \<noteq> StatusOK then (([], Some (BadResponseCode code)), w')
             else (case json_records E body of
                     (records, Some e) \<Rightarrow> ((records, Some (Unmarshal e)), w')
                   | (records, None) \<Rightarrow> ((records, None), w')))"

definition queryZone ::
  "'w env \<Rightarrow> Netbox \<Rightarrow> string \<Rightarrow> 'w \<Rightarrow> (DNSZone list \<times> error option) \<times> 'w" where
  "queryZone E n zone w =
     (let requrl = zone_requrl n zone
      in case http_get E requrl (Token n) w of
           (GetError e, w') \<Rightarrow> (([], Some (RequestProblem e)), w')
         | (Response code body, w') \<Rightarrow>
             if code \<noteq> StatusOK then (([], Some (BadResponseCode code)), w')
             else (case json_zones E body of
                     (zones, Some e) \<Rightarrow> ((zones, Some (Unmarshal e)), w')
                   | (zones, None) \<Rightarrow> ((zones, None), w')))"

section \<open>The handler (netbox.go)\<close>

text \<open>
  Of \<open>request.Request\<close> the handler reads the lower-cased question name and the question
  type. Of the reply it sets the response code, the authoritative bit and the answers.
\<close>

record Request =
  qName :: string
  qType :: "16 word"

record Msg =
  Question :: Request
  Rcode :: int
  Authoritative :: bool
  Answer :: "RR list"

definition familyIP4 :: int where "familyIP4 = 4"
definition familyIP6 :: int where "familyIP6 = 6"

text \<open>
  \<open>uint32(n.TTL.Seconds())\<close>. \<open>Seconds\<close> is the floating-point number
  \<open>float64(d / Second) + float64(d % Second) / 1e9\<close> and the conversion drops its fraction.
  For a duration of whole seconds from 0 to below \<open>2 ^ 32\<close> seconds the float is exact and
  the result is that count of seconds; the theorems below use the function on such
  durations only. Go's integer division truncates towards zero.
\<close>

definition Seconds_uint32 :: "int \<Rightarrow> 32 word" where
  "Seconds_uint32 d =
     word_of_int (if 0 \<le> d then d div 1000000000 else - ((- d) div 1000000000))"

text \<open>The functions \<open>a\<close>, \<open>aaaa\<close> and \<open>ptr\<close>: one record per address or domain, in order.\<close>

definition a_rrs :: "string \<Rightarrow> 32 word \<Rightarrow> IP list \<Rightarrow> RR list" where
  "a_rrs zone ttl ips =
     map (\<lambda>ip. RR_A \<lparr>Name = zone, Rrtype = TypeA, Class = ClassINET, Ttl = ttl\<rparr> ip) ips"

definition aaaa_rrs :: "string \<Rightarrow> 32 word \<Rightarrow> IP list \<Rightarrow> RR list" where
  "aaaa_rrs zone ttl ips =
     map (\<lambda>ip. RR_AAAA \<lparr>Name = zone, Rrtype = TypeAAAA, Class = ClassINET, Ttl = ttl\<rparr> ip) ips"

definition ptr_rrs :: "string \<Rightarrow> 32 word \<Rightarrow> string list \<Rightarrow> RR list" where
  "ptr_rrs zone ttl domains =
     map (\<lambda>domain. RR_PTR \<lparr>Name = zone, Rrtype = TypePTR, Class = ClassINET, Ttl = ttl\<rparr> domain)
       domains"

text \<open>
  \<open>queryNative\<close>: the answers are built from what the lookup returned, also beside an error.
\<close>

definition queryNative ::
  "'w env \<Rightarrow> Netbox \<Rightarrow> Request \<Rightarrow> 'w \<Rightarrow> (RR list \<times> error option) \<times> 'w" where
  "queryNative E n state w =
     (let qname = qName state
      in if qType state = TypeA then
           (case query E n (TrimRight_dot qname) familyIP4 w of
              ((ips, err), w') \<Rightarrow> ((a_rrs qname (Seconds_uint32 (TTL n)) ips, err), w'))
         else if qType state = TypeAAAA then
           (case query E n (TrimRight_dot qname) familyIP6 w of
              ((ips, err), w') \<Rightarrow> ((aaaa_rrs qname (Seconds_uint32 (TTL n)) ips, err), w'))
         else if qType state = TypePTR then
           (case queryreverse E n qname w of
              ((domains, err), w') \<Rightarrow> ((ptr_rrs qname (Seconds_uint32 (TTL n)) domains, err), w'))
         else (([], Some NotImplemented), w))"

text \<open>
  The first loop of \<open>queryDNSPlugin\<close>, \<open>for _, record := range records\<close>. Go evaluates the
  range expression once, before the first iteration: the loop visits the elements that
  \<open>records\<close> held then (the list argument below). The assignment
  \<open>records = append(records, resolvedRecs...)\<close> in the body changes the variable
  \<open>records\<close> (the first component of the loop state) and not the sequence being visited.
  The inner \<open>err\<close> is a new variable of the \<open>if\<close> statement.
\<close>

fun range_records ::
  "'w env \<Rightarrow> Netbox \<Rightarrow> string \<Rightarrow> 16 word \<Rightarrow> DNSRecord list
   \<Rightarrow> DNSRecord list \<times> RR list \<Rightarrow> 'w \<Rightarrow> (DNSRecord list \<times> RR list) \<times> 'w" where
  "range_records E n zone qtype [] (records, answers) w = ((records, answers), w)"
| "range_records E n zone qtype (record # rest) (records, answers) w =
     (case (if rType record = ''CNAME'' \<and> (qtype = TypeA \<or> qtype = TypeAAAA) then
              (case queryRecord E n zone (rAbsoluteValue record)
                      (DNSQueryReverseMap_get qtype) w of
                 ((resolvedRecs, None), w') \<Rightarrow> (records @ resolvedRecs, w')
               | ((resolvedRecs, Some e), w') \<Rightarrow> (records, w'))
            else (records, w)) of
        (records', w') \<Rightarrow>
          range_records E n zone qtype rest
            (records', answers @ [DNSRecord_RR (net_ParseIP E) record]) w')"

definition queryDNSPlugin ::
  "'w env \<Rightarrow> Netbox \<Rightarrow> string \<Rightarrow> Request \<Rightarrow> 'w \<Rightarrow> (RR list \<times> error option) \<times> 'w" where
  "queryDNSPlugin E n zone state w =
     (let qname = qName state; qtype = qType state
      in if qtype = TypeSOA then
           (case queryZone E n zone w of
              ((zones, err), w') \<Rightarrow> ((map DNSZone_RR zones, err), w'))
         else
           (case DNSQueryReverseMap qtype of
              None \<Rightarrow> (([], Some NotImplemented), w)
            | Some querySet \<Rightarrow>
                (case queryRecord E n zone qname querySet w of
                   ((records, err), w') \<Rightarrow>
                     (case range_records E n zone qtype records (records, []) w' of
                        ((records', answers), w'') \<Rightarrow> ((answers, err), w'')))))"

text \<open>
  What one call of \<open>ServeDNS\<close> does to the pipeline: it either returns what
  \<open>plugin.NextOrFailure\<close> returns (\<open>Delegated\<close>), or returns a code and an error of its own.
  The messages given to \<open>WriteMsg\<close> are collected in a list. The request counter
  (a metric) is left out.
\<close>

datatype served =
    Delegated
  | Returned int "error option"

definition dnserror :: "int \<Rightarrow> Request \<Rightarrow> error option \<Rightarrow> Msg list \<Rightarrow> served \<times> Msg list" where
  "dnserror rcode state err written =
     (Returned RcodeSuccess err,
      written @ [\<lparr>Question = state, Rcode = rcode, Authoritative = True, Answer = []\<rparr>])"

definition ServeDNS ::
  "'w env \<Rightarrow> Netbox \<Rightarrow> Request \<Rightarrow> 'w \<Rightarrow> (served \<times> Msg list) \<times> 'w" where
  "ServeDNS E n state w =
     (let zone = Zones_Matches E (Zones n) (qName state)
      in if zone = [] then ((Delegated, []), w)
         else
           (case (if UsePlugin n then queryDNSPlugin E n zone state w
                  else queryNative E n state w) of
              ((answers, Some err), w') \<Rightarrow>
                if Fall_Through E (Fall n) (qName state) then ((Delegated, []), w')
                else (dnserror RcodeServerFailure state (Some err) [], w')
            | ((answers, None), w') \<Rightarrow>
                if length answers = 0 then
                  (if Fall_Through E (Fall n) (qName state) then ((Delegated, []), w')
                   else (dnserror RcodeNameError state None [], w'))
                else
                  ((Returned RcodeSuccess None,
                    [\<lparr>Question = state, Rcode = RcodeSuccess, Authoritative = True,
                      Answer = answers\<rparr>]), w')))"

section \<open>Recorded backends for concrete runs\<close>

text \<open>
  A backend given by tables, in the way the repository's tests mock NetBox: a reply for each
  request URL, the decoded content of each reply body, and the legacy lookups by host and by
  address. The state is the list of the requests made so far, in order. Zones are matched
  by suffix, the first configured zone wins.
\<close>

definition suffix_match :: "string \<Rightarrow> string \<Rightarrow> bool" where
  "suffix_match z name = (length z \<le> length name \<and> drop (length name - length z) name = z)"

definition first_match :: "string list \<Rightarrow> string \<Rightarrow> string" where
  "first_match zs name = (case filter (\<lambda>z. suffix_match z name) zs of [] \<Rightarrow> [] | z # _ \<Rightarrow> z)"

definition recorded_env ::
  "(string \<times> http_reply) list \<Rightarrow> (string \<times> DNSRecord list) list \<Rightarrow> (string \<times> DNSZone list) list
   \<Rightarrow> (string \<times> IP list) list \<Rightarrow> (string \<times> string list) list \<Rightarrow> string list env" where
  "recorded_env replies records zones hosts addrs =
     \<lparr>net_ParseIP = (\<lambda>s. if s = ''192.168.0.1''
                          then [0, 0, 0, 0, 0, 0, 0, 0, 0, 0, 255, 255, 192, 168, 0, 1] else []),
      Zones_Matches = first_match,
      Fall_Through = (\<lambda>zs name. first_match zs name \<noteq> []),
      http_get = (\<lambda>url token w.
         ((case map_of replies url of None \<Rightarrow> Response 404 [] | Some r \<Rightarrow> r), w @ [url])),
      json_records = (\<lambda>body.
         (case map_of records body of None \<Rightarrow> ([], Some ''invalid character'') | Some rs \<Rightarrow> (rs, None))),
      json_zones = (\<lambda>body.
         (case map_of zones body of None \<Rightarrow> ([], Some ''invalid character'') | Some zs \<Rightarrow> (zs, None))),
      query = (\<lambda>n host family w.
         ((case map_of hosts host of None \<Rightarrow> ([], Some (LegacyError ''no reply'')) | Some ips \<Rightarrow> (ips, None)),
          w @ [host])),
      queryreverse = (\<lambda>n name w.
         ((case map_of addrs name of None \<Rightarrow> ([], Some (LegacyError ''no reply'')) | Some ds \<Rightarrow> (ds, None)),
          w @ [name]))\<rparr>"

definition example_netbox :: Netbox where
  "example_netbox = \<lparr>Url = ''https://example.org'', Token = ''mytoken'', TTL = 1800000000000,
                      Fall = [], Zones = [''example.com.''], UsePlugin = True\<rparr>"

definition alias_record :: DNSRecord where
  "alias_record = \<lparr>rType = ''CNAME'', rTTL = 8600, rValue = ''mail1'',
                    rAbsoluteValue = ''mail1.example.com.'', rFQDN = ''test.example.com.''\<rparr>"

definition address_record :: DNSRecord where
  "address_record = \<lparr>rType = ''A'', rTTL = 8600, rValue = ''192.168.0.1'',
                      rAbsoluteValue = ''192.168.0.1'', rFQDN = ''mail1.example.com.''\<rparr>"

definition alias_url :: string where
  "alias_url = ''https://example.org/api/plugins/netbox-dns/records/?zone=example.com&fqdn=test.example.com.&active=true&type=A&type=CNAME''"

definition target_url :: string where
  "target_url = ''https://example.org/api/plugins/netbox-dns/records/?zone=example.com&fqdn=mail1.example.com.&active=true&type=A&type=CNAME''"

definition alias_resolved_env :: "string list env" where
  "alias_resolved_env =
     recorded_env [(alias_url, Response 200 ''alias''), (target_url, Response 200 ''address'')]
       [(''alias'', [alias_record]), (''address'', [address_record])] [] [] []"

definition alias_failed_env :: "string list env" where
  "alias_failed_env =
     recorded_env [(alias_url, Response 200 ''alias''), (target_url, Response 500 [])]
       [(''alias'', [alias_record])] [] [] []"

definition alias_question :: Request where
  "alias_question = \<lparr>qName = ''test.example.com.'', qType = TypeA\<rparr>"

definition alias_answer :: RR where
  "alias_answer = RR_CNAME \<lparr>Name = ''test.example.com.'', Rrtype = TypeCNAME,
                             Class = ClassINET, Ttl = 8600\<rparr> ''mail1.example.com.''"

definition absent_url :: string where
  "absent_url = ''https://example.org/api/plugins/netbox-dns/records/?zone=example.com&fqdn=test2.example.com.&active=true&type=A&type=CNAME''"

definition absent_question :: Request where
  "absent_question = \<lparr>qName = ''test2.example.com.'', qType = TypeA\<rparr>"

definition no_record_env :: "string list env" where
  "no_record_env = recorded_env [(absent_url, Response 200 ''none'')] [(''none'', [])] [] [] []"

definition unreachable_env :: "string list env" where
  "unreachable_env = recorded_env [(absent_url, GetError ''timeout'')] [] [] [] []"

definition fallthrough_netbox :: Netbox where
  "fallthrough_netbox = example_netbox\<lparr>Fall := [''.'']\<rparr>"

definition legacy_netbox :: Netbox where
  "legacy_netbox = \<lparr>Url = ''https://example.org'', Token = ''s3kr3tt0ken'', TTL = 1800000000000,
                     Fall = [], Zones = [''.''], UsePlugin = False\<rparr>"

definition legacy_env :: "string list env" where
  "legacy_env = recorded_env [] [] [] [(''my_host'', [[10, 0, 0, 2]])] []"



section \<open>Unfolding rules\<close>

lemmas dns_consts =
  TypeA_def TypeNS_def TypeCNAME_def TypeSOA_def TypePTR_def TypeMX_def TypeTXT_def
  TypeAAAA_def ClassINET_def RcodeSuccess_def RcodeServerFailure_def RcodeNameError_def

lemmas run_defs = queryDNSPlugin_def queryRecord_def record_requrl_def TrimRight_dot_def
  DNSQueryReverseMap_def DNSQueryReverseMap_get_def DNSRecordReverseMap_def DNSRecordReverseMap_get_def
  DNSRecord_RR_def StatusOK_def dns_consts

lemmas scenario_defs = recorded_env_def example_netbox_def alias_record_def address_record_def
  alias_url_def target_url_def alias_question_def alias_answer_def first_match_def suffix_match_def

lemmas scenario_defs2 = scenario_defs absent_url_def absent_question_def no_record_env_def
  unreachable_env_def fallthrough_netbox_def legacy_netbox_def legacy_env_def
  alias_resolved_env_def alias_failed_env_def


section \<open>The record conversion\<close>


text \<open>
  A record of type A or AAAA never converts to the NULL record: the result of \<open>ParseIP\<close>
  goes into the address field unchecked.
\<close>

lemma DNSRecord_RR_address:
  "rType r = ''A'' \<or> rType r = ''AAAA'' \<Longrightarrow> DNSRecord_RR ParseIP r \<noteq> NULL_RR"
  by (auto simp: DNSRecord_RR_def NULL_RR_def Let_def)

text \<open>The MX text of the repository's tests, and one with three tokens.\<close>

lemma DNSRecord_RR_MX_example:
  "DNSRecord_RR ParseIP
     \<lparr>rType = ''MX'', rTTL = 8600, rValue = ''10 mail1'',
      rAbsoluteValue = ''10 mail1.example.org.'', rFQDN = ''example.org.''\<rparr>
   = RR_MX \<lparr>Name = ''example.org.'', Rrtype = TypeMX, Class = ClassINET, Ttl = 8600\<rparr>
       10 ''mail1.example.org.''"
  by (simp add: DNSRecord_RR_def ParseInt_10_32_def is_digit_def decimal_def digit_val_def
      DNSRecordReverseMap_get_def DNSRecordReverseMap_def)

lemma DNSRecord_RR_MX_three_tokens:
  "DNSRecord_RR ParseIP
     \<lparr>rType = ''MX'', rTTL = 8600, rValue = ''10 mail1 x'',
      rAbsoluteValue = ''10 mail1.example.org. x'', rFQDN = ''example.org.''\<rparr>
   = NULL_RR"
  by (simp add: DNSRecord_RR_def)

section \<open>The lookups\<close>

text \<open>
  The answers of the first loop of \<open>queryDNSPlugin\<close> are the conversions of the records it
  ranges over, whatever the alias lookups return.
\<close>

lemma range_records_answers:
  "snd (fst (range_records E n zone qtype rs (records, answers) w))
   = answers @ map (DNSRecord_RR (net_ParseIP E)) rs"
  by (induction rs arbitrary: records answers w) (simp_all split: prod.splits option.splits)

lemma queryDNSPlugin_answers:
  assumes "qType state \<noteq> TypeSOA"
    and "DNSQueryReverseMap (qType state) = Some querySet"
    and "queryRecord E n zone (qName state) querySet w = ((records, err), w1)"
  shows "fst (queryDNSPlugin E n zone state w)
         = (map (DNSRecord_RR (net_ParseIP E)) records, err)"
proof -
  obtain recs' ans w2 where
    loop: "range_records E n zone (qType state) records (records, []) w1 = ((recs', ans), w2)"
    by (metis surj_pair)
  have "ans = map (DNSRecord_RR (net_ParseIP E)) records"
    using range_records_answers [of E n zone "qType state" records records "[]" w1] loop
    by simp
  then show ?thesis
    using assms loop by (simp add: queryDNSPlugin_def)
qed

lemma DNSQueryReverseMap_A: "DNSQueryReverseMap TypeA = Some ''type=A&type=CNAME''"
  by (simp add: DNSQueryReverseMap_def dns_consts)

lemma DNSQueryReverseMap_AAAA: "DNSQueryReverseMap TypeAAAA = Some ''type=AAAA&type=CNAME''"
  by (simp add: DNSQueryReverseMap_def dns_consts)

lemma address_question_querySet:
  "qtype = TypeA \<or> qtype = TypeAAAA \<Longrightarrow>
   qtype \<noteq> TypeSOA \<and> DNSQueryReverseMap qtype = Some (DNSQueryReverseMap_get qtype)"
  by (auto simp: DNSQueryReverseMap_get_def DNSQueryReverseMap_A DNSQueryReverseMap_AAAA)
     (simp_all add: dns_consts)

lemma dom_DNSQueryReverseMap:
  "dom DNSQueryReverseMap = {TypeA, TypeAAAA, TypePTR, TypeCNAME, TypeNS, TypeMX, TypeTXT}"
  by (auto simp: DNSQueryReverseMap_def)





section \<open>The claims\<close>

text \<open>
  C1. For an A or AAAA question on the rich path, each CNAME record of the first lookup
  triggers one more lookup of its \<open>absoluteValue\<close> with the question's own query set, and the
  records of that lookup are to follow the CNAME record in the answers: a single CNAME and
  a second lookup returning one A record are to give two answers, the CNAME and then the A.

  The code makes the second lookup and appends its records to the variable \<open>records\<close>, but
  the loop ranges over the records of the first lookup, and only those are converted. Run
  on the test case of \<open>TestQueryDNSPlugin\<close> (question A for \<open>test.example.com.\<close>, the backend
  holding the CNAME to \<open>mail1.example.com.\<close> and the A record of that name): both requests
  are made, both succeed, and the answer is the CNAME record alone.
\<close>

theorem alias_target_not_answered:
  "queryDNSPlugin alias_resolved_env example_netbox ''example.com.''
       \<lparr>qName = ''test.example.com.'', qType = TypeA\<rparr> []
   = (([RR_CNAME \<lparr>Name = ''test.example.com.'', Rrtype = TypeCNAME, Class = ClassINET, Ttl = 8600\<rparr>
          ''mail1.example.com.''], None),
      [alias_url, target_url])"
  by (simp add: run_defs alias_resolved_env_def recorded_env_def example_netbox_def alias_record_def address_record_def
      alias_url_def target_url_def)

text \<open>
  C2. For a question whose name matches a configured zone, \<open>ServeDNS\<close> does exactly one of
  two things, delegate to the next handler or write one message. A lookup error: delegation
  if fallthrough covers the name, else a server-failure message with the authoritative bit.
  No error and no answers: delegation if fallthrough covers the name, else a name-error
  message with the authoritative bit. One or more answers: one authoritative message that
  carries them all in order, and no delegation.
\<close>

theorem ServeDNS_disposition:
  assumes "Zones_Matches E (Zones n) (qName state) = zone"
    and "zone \<noteq> []"
    and "(if UsePlugin n then queryDNSPlugin E n zone state w else queryNative E n state w)
         = ((answers, err), w')"
  shows "ServeDNS E n state w =
     (if err \<noteq> None then
        (if Fall_Through E (Fall n) (qName state) then ((Delegated, []), w')
         else ((Returned RcodeSuccess err,
                [\<lparr>Question = state, Rcode = RcodeServerFailure, Authoritative = True,
                  Answer = []\<rparr>]), w'))
      else if answers = [] then
        (if Fall_Through E (Fall n) (qName state) then ((Delegated, []), w')
         else ((Returned RcodeSuccess None,
                [\<lparr>Question = state, Rcode = RcodeNameError, Authoritative = True,
                  Answer = []\<rparr>]), w'))
      else ((Returned RcodeSuccess None,
             [\<lparr>Question = state, Rcode = RcodeSuccess, Authoritative = True,
               Answer = answers\<rparr>]), w'))
   \<and> (case fst (ServeDNS E n state w) of
        (Delegated, written) \<Rightarrow> written = []
      | (Returned rcode e, written) \<Rightarrow> length written = 1)"
proof (cases err)
  case None
  then show ?thesis
    using assms by (simp add: ServeDNS_def dnserror_def)
next
  case (Some e)
  then show ?thesis
    using assms by (simp add: ServeDNS_def dnserror_def)
qed

theorem ServeDNS_disposition_witness:
  "Zones_Matches alias_resolved_env (Zones example_netbox) (qName alias_question) = ''example.com.''
   \<and> ''example.com.'' \<noteq> []
   \<and> (if UsePlugin example_netbox
       then queryDNSPlugin alias_resolved_env example_netbox ''example.com.'' alias_question []
       else queryNative alias_resolved_env example_netbox alias_question [])
      = (([alias_answer], None), [alias_url, target_url])
   \<and> ServeDNS alias_resolved_env example_netbox alias_question []
      = ((Returned RcodeSuccess None,
          [\<lparr>Question = alias_question, Rcode = RcodeSuccess, Authoritative = True,
            Answer = [alias_answer]\<rparr>]), [alias_url, target_url])
   \<and> ServeDNS no_record_env example_netbox absent_question []
      = ((Returned RcodeSuccess None,
          [\<lparr>Question = absent_question, Rcode = RcodeNameError, Authoritative = True,
            Answer = []\<rparr>]), [absent_url])
   \<and> ServeDNS no_record_env fallthrough_netbox absent_question [] = ((Delegated, []), [absent_url])
   \<and> ServeDNS unreachable_env example_netbox absent_question []
      = ((Returned RcodeSuccess (Some (RequestProblem ''timeout'')),
          [\<lparr>Question = absent_question, Rcode = RcodeServerFailure, Authoritative = True,
            Answer = []\<rparr>]), [absent_url])
   \<and> ServeDNS unreachable_env fallthrough_netbox absent_question [] = ((Delegated, []), [absent_url])"
  using
    ServeDNS_disposition [of alias_resolved_env example_netbox alias_question "''example.com.''"
      "[]" "[alias_answer]" None "[alias_url, target_url]"]
    ServeDNS_disposition [of no_record_env example_netbox absent_question "''example.com.''"
      "[]" "[]" None "[absent_url]"]
    ServeDNS_disposition [of no_record_env fallthrough_netbox absent_question "''example.com.''"
      "[]" "[]" None "[absent_url]"]
    ServeDNS_disposition [of unreachable_env example_netbox absent_question "''example.com.''"
      "[]" "[]" "Some (RequestProblem ''timeout'')" "[absent_url]"]
    ServeDNS_disposition [of unreachable_env fallthrough_netbox absent_question "''example.com.''"
      "[]" "[]" "Some (RequestProblem ''timeout'')" "[absent_url]"]
  by (simp add: run_defs queryNative_def scenario_defs2)

text \<open>
  C3. For a record of type MX the conversion is to split \<open>absoluteValue\<close> at the space into
  exactly two tokens, read the first as a non-negative preference, and give the NULL record
  when there are not two tokens or the first is no valid non-negative integer.

  The code reads the first token with \<open>strconv.ParseInt(_, 10, 32)\<close> and converts the
  result to \<open>uint16\<close>: a negative number is accepted and wraps around. For the text
  \<open>-5 mail1.example.org.\<close> the conversion gives an MX record of preference 65531, not the
  NULL record.
\<close>

theorem MX_negative_preference_accepted:
  "DNSRecord_RR ParseIP
     \<lparr>rType = ''MX'', rTTL = 8600, rValue = ''-5 mail1'',
      rAbsoluteValue = ''-5 mail1.example.org.'', rFQDN = ''example.org.''\<rparr>
   = RR_MX \<lparr>Name = ''example.org.'', Rrtype = TypeMX, Class = ClassINET, Ttl = 8600\<rparr>
       65531 ''mail1.example.org.''"
  by (simp add: DNSRecord_RR_def ParseInt_10_32_def is_digit_def decimal_def digit_val_def
      DNSRecordReverseMap_get_def DNSRecordReverseMap_def)

text \<open>
  C4. For an A or AAAA question on the rich path whose first lookup succeeds and returns a
  CNAME record, when the lookup of the alias target returns an error, that error is
  dropped: \<open>queryDNSPlugin\<close> returns no error, and its answers are the conversions of the
  records of the first lookup and nothing else (exactly the CNAME records, when the first
  lookup returned only those). The alias lookup is taken to fail in whatever state the
  backend is.
\<close>

theorem alias_error_swallowed:
  assumes "qType state = TypeA \<or> qType state = TypeAAAA"
    and "queryRecord E n zone (qName state) (DNSQueryReverseMap_get (qType state)) w
         = ((records, None), w1)"
    and "\<exists>r \<in> set records. rType r = ''CNAME''"
    and "\<forall>r \<in> set records. rType r = ''CNAME'' \<longrightarrow>
           (\<forall>w'. snd (fst (queryRecord E n zone (rAbsoluteValue r)
                               (DNSQueryReverseMap_get (qType state)) w')) \<noteq> None)"
  shows "fst (queryDNSPlugin E n zone state w)
         = (map (DNSRecord_RR (net_ParseIP E)) records, None)"
  using queryDNSPlugin_answers [of state "DNSQueryReverseMap_get (qType state)" E n zone w records None w1]
    address_question_querySet [OF assms(1)] assms(2)
  by simp

theorem alias_error_swallowed_witness:
  "(qType alias_question = TypeA \<or> qType alias_question = TypeAAAA)
   \<and> queryRecord alias_failed_env example_netbox ''example.com.'' (qName alias_question)
        (DNSQueryReverseMap_get (qType alias_question)) [] = (([alias_record], None), [alias_url])
   \<and> rType alias_record = ''CNAME''
   \<and> (\<forall>w'. snd (fst (queryRecord alias_failed_env example_netbox ''example.com.''
                       (rAbsoluteValue alias_record)
                       (DNSQueryReverseMap_get (qType alias_question)) w'))
          = Some (BadResponseCode 500))
   \<and> fst (queryDNSPlugin alias_failed_env example_netbox ''example.com.'' alias_question [])
       = ([alias_answer], None)"
  using alias_error_swallowed
    [of alias_question alias_failed_env example_netbox "''example.com.''" "[]"
        "[alias_record]" "[alias_url]"]
  by (simp add: run_defs scenario_defs alias_failed_env_def)

text \<open>
  C5. For a record of type A or AAAA whose \<open>absoluteValue\<close> is no IP literal, the
  conversion is to give the NULL record.

  The code does not look at what \<open>net.ParseIP\<close> returns: the conversion gives a record of
  type A (or AAAA) with the full header and, as its address, whatever \<open>ParseIP\<close> returned,
  which is \<open>nil\<close> for a string that is no IP literal. It is not the NULL record that the MX
  branch and the default branch return.
\<close>

theorem bad_address_not_NULL:
  "DNSRecord_RR ParseIP
     \<lparr>rType = ''A'', rTTL = 8600, rValue = ''not-an-ip'', rAbsoluteValue = ''not-an-ip'',
      rFQDN = ''mail1.example.org.''\<rparr>
   = RR_A \<lparr>Name = ''mail1.example.org.'', Rrtype = TypeA, Class = ClassINET, Ttl = 8600\<rparr>
       (ParseIP ''not-an-ip'')
   \<and> DNSRecord_RR ParseIP
     \<lparr>rType = ''A'', rTTL = 8600, rValue = ''not-an-ip'', rAbsoluteValue = ''not-an-ip'',
      rFQDN = ''mail1.example.org.''\<rparr> \<noteq> NULL_RR"
  by (simp add: DNSRecord_RR_def NULL_RR_def DNSRecordReverseMap_get_def DNSRecordReverseMap_def)



text \<open>
  C7. A question type that the active mode does not support makes the lookup fail at once,
  before any request, with the error "request type not implemented": in legacy mode every
  type but A, AAAA and PTR, in rich mode every type that is neither SOA nor a key of
  \<open>DNSQueryReverseMap\<close>. For a question in a configured zone \<open>ServeDNS\<close> treats it as any
  lookup error: delegation with fallthrough, a server-failure message without.
\<close>

theorem unsupported_type_not_implemented:
  "(qType state \<notin> {TypeA, TypeAAAA, TypePTR} \<longrightarrow>
      queryNative E n state w = (([], Some NotImplemented), w))
   \<and> (qType state \<noteq> TypeSOA \<and> qType state \<notin> dom DNSQueryReverseMap \<longrightarrow>
      queryDNSPlugin E n zone state w = (([], Some NotImplemented), w))
   \<and> ((if UsePlugin n then qType state \<noteq> TypeSOA \<and> qType state \<notin> dom DNSQueryReverseMap
        else qType state \<notin> {TypeA, TypeAAAA, TypePTR})
       \<and> Zones_Matches E (Zones n) (qName state) \<noteq> [] \<longrightarrow>
      ServeDNS E n state w =
        (if Fall_Through E (Fall n) (qName state) then ((Delegated, []), w)
         else ((Returned RcodeSuccess (Some NotImplemented),
                [\<lparr>Question = state, Rcode = RcodeServerFailure, Authoritative = True,
                  Answer = []\<rparr>]), w)))"
proof -
  have legacy: "queryNative E n state w = (([], Some NotImplemented), w)"
    if "qType state \<notin> {TypeA, TypeAAAA, TypePTR}" for E :: "'a env" and n state w
    using that by (simp add: queryNative_def)
  have rich: "queryDNSPlugin E n zone state w = (([], Some NotImplemented), w)"
    if "qType state \<noteq> TypeSOA \<and> qType state \<notin> dom DNSQueryReverseMap"
    for E :: "'a env" and n zone state w
    using that by (simp add: queryDNSPlugin_def domIff)
  show ?thesis
    using legacy [of state E n w] rich [of state E n _ w]
    by (auto simp: ServeDNS_def dnserror_def Let_def)
qed

theorem unsupported_type_not_implemented_witness:
  "qType \<lparr>qName = ''example.com.'', qType = TypeMX\<rparr> \<notin> {TypeA, TypeAAAA, TypePTR}
   \<and> queryNative legacy_env legacy_netbox \<lparr>qName = ''example.com.'', qType = TypeMX\<rparr> []
      = (([], Some NotImplemented), [])
   \<and> Zones_Matches legacy_env (Zones legacy_netbox) ''example.com.'' \<noteq> []
   \<and> ServeDNS legacy_env legacy_netbox \<lparr>qName = ''example.com.'', qType = TypeMX\<rparr> []
      = ((Returned RcodeSuccess (Some NotImplemented),
          [\<lparr>Question = \<lparr>qName = ''example.com.'', qType = TypeMX\<rparr>,
            Rcode = RcodeServerFailure, Authoritative = True, Answer = []\<rparr>]), [])
   \<and> qType \<lparr>qName = ''test.example.com.'', qType = 33\<rparr> \<noteq> TypeSOA
   \<and> qType \<lparr>qName = ''test.example.com.'', qType = 33\<rparr> \<notin> dom DNSQueryReverseMap
   \<and> queryDNSPlugin no_record_env example_netbox ''example.com.''
        \<lparr>qName = ''test.example.com.'', qType = 33\<rparr> [] = (([], Some NotImplemented), [])
   \<and> ServeDNS no_record_env example_netbox \<lparr>qName = ''test.example.com.'', qType = 33\<rparr> []
      = ((Returned RcodeSuccess (Some NotImplemented),
          [\<lparr>Question = \<lparr>qName = ''test.example.com.'', qType = 33\<rparr>,
            Rcode = RcodeServerFailure, Authoritative = True, Answer = []\<rparr>]), [])
   \<and> ServeDNS no_record_env fallthrough_netbox \<lparr>qName = ''test.example.com.'', qType = 33\<rparr> []
      = ((Delegated, []), [])"
  using
    unsupported_type_not_implemented
      [of "\<lparr>qName = ''example.com.'', qType = TypeMX\<rparr>" legacy_env legacy_netbox "[]"
          "''example.com.''"]
    unsupported_type_not_implemented
      [of "\<lparr>qName = ''test.example.com.'', qType = 33\<rparr>" no_record_env example_netbox "[]"
          "''example.com.''"]
    unsupported_type_not_implemented
      [of "\<lparr>qName = ''test.example.com.'', qType = 33\<rparr>" no_record_env fallthrough_netbox "[]"
          "''example.com.''"]
  by (simp add: dom_DNSQueryReverseMap scenario_defs2 dns_consts)



text \<open>
  C9. The SOA conversion of a backend zone: owner name, primary nameserver and mailbox are
  the zone's name, nameserver name and mailbox name with a dot appended; serial, refresh,
  retry, expire and minimum are the zone's 32-bit fields; the ttl is the zone's SOA ttl;
  the record is of type SOA and class IN.
\<close>

theorem DNSZone_RR_fields:
  "DNSZone_RR z =
     RR_SOA (Hdr (DNSZone_RR z)) (zMName_Name z @ ''.'') (zRName z @ ''.'')
       (zSerial z) (zRefresh z) (zRetry z) (zExpire z) (zMinimum z)
   \<and> Name (Hdr (DNSZone_RR z)) = zName z @ ''.''
   \<and> Ttl (Hdr (DNSZone_RR z)) = zTTL z
   \<and> Rrtype (Hdr (DNSZone_RR z)) = TypeSOA
   \<and> Class (Hdr (DNSZone_RR z)) = ClassINET"
  by (simp add: DNSZone_RR_def)

text \<open>
  C10. The conversion is total, and a record whose type string is none of A, AAAA, PTR,
  CNAME, NS, SOA, MX, TXT converts to the NULL record.
\<close>

theorem DNSRecord_RR_unsupported:
  "rType r \<notin> {''A'', ''AAAA'', ''PTR'', ''CNAME'', ''NS'', ''SOA'', ''MX'', ''TXT''}
   \<Longrightarrow> DNSRecord_RR ParseIP r = NULL_RR"
  by (simp add: DNSRecord_RR_def Let_def)

theorem DNSRecord_RR_unsupported_witness:
  "rType \<lparr>rType = ''BBBB'', rTTL = 8600, rValue = ''x'', rAbsoluteValue = ''x'',
          rFQDN = ''test.example.org.''\<rparr>
     \<notin> {''A'', ''AAAA'', ''PTR'', ''CNAME'', ''NS'', ''SOA'', ''MX'', ''TXT''}
   \<and> DNSRecord_RR (\<lambda>s. [])
       \<lparr>rType = ''BBBB'', rTTL = 8600, rValue = ''x'', rAbsoluteValue = ''x'',
        rFQDN = ''test.example.org.''\<rparr> = NULL_RR"
  using DNSRecord_RR_unsupported
    [of "\<lparr>rType = ''BBBB'', rTTL = 8600, rValue = ''x'', rAbsoluteValue = ''x'',
          rFQDN = ''test.example.org.''\<rparr>" "\<lambda>s. []"]
  by simp

end
